theory Spec2Isabelle
  imports Complex_Main "HOL-Library.Word" "HOL-Library.AList"
begin

unbundle bit_operations_syntax

section \<open>The native module registry\<close>

text \<open>
  \<^verbatim>\<open>jSH.h\<close> declares the record of one loaded library and the head of the list of
  loaded libraries:
  \<^verbatim>\<open>
  typedef struct __library_t {
      struct __library_t *next;
      const char *name;
      void *handle;
      void (*shutdown)(void);
  } library_t;
  extern library_t *jsh_loaded_libraries;
  \<close>
  A handle and a shutdown routine are addresses; a null \<^verbatim>\<open>shutdown\<close> is \<open>None\<close>.
  The chain of \<^verbatim>\<open>next\<close> pointers starting at \<^verbatim>\<open>jsh_loaded_libraries\<close> is a list,
  the null pointer the empty list.
\<close>

record library_t =
  name :: string
  handle :: nat
  shutdown :: "nat option"

type_synonym registry = "library_t list"

definition jsh_loaded_libraries_init :: registry where
  "jsh_loaded_libraries_init = []"

text \<open>
  Modelled from the spec: the body of \<^verbatim>\<open>jsh_check_library\<close>, of which \<^verbatim>\<open>jSH.h\<close> has
  only the declaration \<^verbatim>\<open>extern bool jsh_check_library(const char *name)\<close>. The spec:
  "isRegistered(name) -> bool: pure lookup, no side effect."
\<close>

fun jsh_check_library :: "registry \<Rightarrow> string \<Rightarrow> bool" where
  "jsh_check_library [] n = False"
| "jsh_check_library (l # chain) n = (if name l = n then True else jsh_check_library chain n)"

text \<open>
  Modelled from the spec: the body of \<^verbatim>\<open>jsh_register_library\<close>, of which \<^verbatim>\<open>jSH.h\<close>
  has only the declaration
  \<^verbatim>\<open>extern bool jsh_register_library(const char *name, void *handle, void (*shutdown)(void))\<close>.
  The spec: "register(name, handle, shutdownHook) -> bool: fails (returns false, does not
  raise) if name is already present [...]. Otherwise appends a new LibraryRecord and
  returns true." The function returns the boolean and the list the global points to
  afterwards. (The list head is all the state the header gives the registry; a registry
  that the spec closes to registration after teardown is left out of the model.)
\<close>

definition jsh_register_library :: "registry \<Rightarrow> string \<Rightarrow> nat \<Rightarrow> nat option \<Rightarrow> bool \<times> registry" where
  "jsh_register_library reg n h s =
     (if jsh_check_library reg n then (False, reg)
      else (True, reg @ [\<lparr>name = n, handle = h, shutdown = s\<rparr>]))"

text \<open>A sequence of register calls, run from a given registry; each call is (name, handle, hook).\<close>

fun register_all :: "registry \<Rightarrow> (string \<times> nat \<times> nat option) list \<Rightarrow> registry" where
  "register_all reg [] = reg"
| "register_all reg ((n, h, s) # cs) = register_all (snd (jsh_register_library reg n h s)) cs"

text \<open>The number of records of a registry that carry a given name.\<close>

definition records_named :: "registry \<Rightarrow> string \<Rightarrow> nat" where
  "records_named reg n = length (filter (\<lambda>l. name l = n) reg)"

text \<open>
  What teardown does to the outside world, in order: a shutdown hook is called (for the
  record of that name), a hook reports a failure (surfaced as a warning), a handle is
  given to the platform's unloading primitive.
\<close>

datatype teardown_event =
    ShutdownInvoked string nat
  | ShutdownWarning string
  | HandleReleased nat

text \<open>
  Modelled from the spec: tearing down one record. "invokes shutdown if present (ignoring
  absence), then releases handle via the platform unloading primitive"; a failing hook is
  "logged and swallowed". Which hooks fail is given by \<open>fails\<close>.
\<close>

definition teardown_one :: "(nat \<Rightarrow> bool) \<Rightarrow> library_t \<Rightarrow> teardown_event list" where
  "teardown_one fails l =
     (case shutdown l of
        None \<Rightarrow> []
      | Some f \<Rightarrow> ShutdownInvoked (name l) f # (if fails f then [ShutdownWarning (name l)] else []))
     @ [HandleReleased (handle l)]"

text \<open>
  Modelled from the spec: \<^verbatim>\<open>teardownAll\<close>, which \<^verbatim>\<open>jSH.h\<close> does not declare. "Iterates
  every LibraryRecord"; the registry is "drained exactly once at teardown", so the list is
  empty afterwards and a repeated call finds nothing to iterate. The records are visited
  from the head of the list on. The function takes the trace of events so far and returns
  the registry and the trace afterwards.
\<close>

fun teardown_chain :: "(nat \<Rightarrow> bool) \<Rightarrow> registry \<Rightarrow> teardown_event list" where
  "teardown_chain fails [] = []"
| "teardown_chain fails (l # chain) = teardown_one fails l @ teardown_chain fails chain"

definition teardownAll :: "(nat \<Rightarrow> bool) \<Rightarrow> registry \<times> teardown_event list \<Rightarrow> registry \<times> teardown_event list" where
  "teardownAll fails st = ([], snd st @ teardown_chain fails (fst st))"

text \<open>How often the hook of the record named \<open>n\<close> was called in a trace.\<close>

definition hook_calls :: "teardown_event list \<Rightarrow> string \<Rightarrow> nat" where
  "hook_calls tr n = length (filter (\<lambda>e. case e of ShutdownInvoked m f \<Rightarrow> m = n | _ \<Rightarrow> False) tr)"

section \<open>The scripting engine, as the macros of jSH.h use it\<close>

text \<open>
  Modelled from the spec: the scripting-engine collaborator. \<^verbatim>\<open>jSH.h\<close> includes
  \<^verbatim>\<open>mujs.h\<close>, which is not among the sources; the macros call its primitives
  \<^verbatim>\<open>js_error\<close>, \<^verbatim>\<open>js_isuserdata\<close>, \<^verbatim>\<open>js_newcfunction\<close>, \<^verbatim>\<open>js_newcconstructor\<close>,
  \<^verbatim>\<open>js_newboolean\<close>, \<^verbatim>\<open>js_setglobal\<close>, \<^verbatim>\<open>js_defglobal\<close> and \<^verbatim>\<open>js_defproperty\<close> and use
  its constants \<^verbatim>\<open>JS_READONLY\<close>, \<^verbatim>\<open>JS_DONTENUM\<close> and \<^verbatim>\<open>JS_DONTCONF\<close>. The spec names
  them "defineGlobal(name, value), defineProperty(object, name, value, flags),
  newConstructor(...), raiseError(message)" writing into "a process-wide global
  environment", with the visibility policy "read-only, non-enumerable, non-configurable,
  any combination", and says of a binding call that it "always succeeds but silently
  shadows a prior binding if names collide".

  The engine state is a heap of objects (an address is an index into the heap), the
  address of the global object, the operand stack of the running native routine (bottom
  first), and the error raised into the script caller, if any. A native routine is named
  by its C identifier; a native resource by its address.
\<close>

type_synonym js_CFunction = string

datatype js_Value =
    JS_TUNDEFINED
  | JS_TBOOLEAN bool
  | JS_TNUMBER rat
  | JS_TSTRING string
  | JS_TOBJECT nat

text \<open>
  Modelled from the spec: the classes of object the macros create or test: a plain
  object; a native function (the routine for a plain call, the routine for \<^verbatim>\<open>new\<close> if
  any, its name, its declared parameter count); a boolean object; a typed handle (the
  type tag, the native resource, the finalizer if any).
\<close>

datatype js_Class =
    JS_COBJECT
  | JS_CCFUNCTION js_CFunction "js_CFunction option" string int
  | JS_CBOOLEAN bool
  | JS_CUSERDATA string nat "js_CFunction option"

record js_Property =
  pvalue :: js_Value
  patts :: int

record js_Object =
  otype :: js_Class
  properties :: "(string \<times> js_Property) list"

record js_State =
  heap :: "js_Object list"
  G :: nat
  stack :: "js_Value list"
  exception :: "string option"

text \<open>
  Modelled from the spec: the three flags of the visibility policy, as the bits of
  \<^verbatim>\<open>mujs.h\<close> that the macros combine with \<^verbatim>\<open>|\<close>.
\<close>

definition JS_READONLY :: int where
  "JS_READONLY = 1"

definition JS_DONTENUM :: int where
  "JS_DONTENUM = 2"

definition JS_DONTCONF :: int where
  "JS_DONTCONF = 4"

text \<open>
  Modelled from the spec: a stack index counts from the bottom when it is non-negative
  and from the top when it is negative (\<open>-1\<close> is the top); outside the stack it reads as
  undefined.
\<close>

definition stackidx :: "js_State \<Rightarrow> int \<Rightarrow> js_Value" where
  "stackidx J idx =
     (let i = (if idx < 0 then int (length (stack J)) + idx else idx)
      in if 0 \<le> i \<and> i < int (length (stack J)) then stack J ! nat i else JS_TUNDEFINED)"

text \<open>Modelled from the spec: pushing a value and popping the top of the stack.\<close>

definition js_push :: "js_State \<Rightarrow> js_Value \<Rightarrow> js_State" where
  "js_push J v = J\<lparr>stack := stack J @ [v]\<rparr>"

definition js_pop1 :: "js_State \<Rightarrow> js_State" where
  "js_pop1 J = J\<lparr>stack := butlast (stack J)\<rparr>"

text \<open>
  Modelled from the spec: a new object goes to the end of the heap and its address onto
  the stack.
\<close>

definition js_pushnewobject :: "js_State \<Rightarrow> js_Object \<Rightarrow> js_State" where
  "js_pushnewobject J obj = js_push (J\<lparr>heap := heap J @ [obj]\<rparr>) (JS_TOBJECT (length (heap J)))"

text \<open>
  Modelled from the spec: \<^verbatim>\<open>js_error\<close>, the spec's \<open>raiseError(message)\<close>; the message
  (already formatted) is what the script caller catches.
\<close>

definition js_error :: "js_State \<Rightarrow> string \<Rightarrow> js_State" where
  "js_error J msg = J\<lparr>exception := Some msg\<rparr>"

text \<open>
  Modelled from the spec: the object a value refers to, if it refers to one of the heap.
\<close>

definition js_objectof :: "js_State \<Rightarrow> js_Value \<Rightarrow> js_Object option" where
  "js_objectof J v =
     (case v of
        JS_TOBJECT a \<Rightarrow> (if a < length (heap J) then Some (heap J ! a) else None)
      | _ \<Rightarrow> None)"

text \<open>
  Modelled from the spec: \<^verbatim>\<open>js_isuserdata\<close>, the test that the value at \<open>idx\<close> is a
  typed handle carrying the tag (the spec's TypedHandle, "carrying a type tag string").
\<close>

definition js_isuserdata :: "js_State \<Rightarrow> int \<Rightarrow> string \<Rightarrow> bool" where
  "js_isuserdata J idx tag =
     (case js_objectof J (stackidx J idx) of
        Some obj \<Rightarrow> (case otype obj of JS_CUSERDATA t d f \<Rightarrow> t = tag | _ \<Rightarrow> False)
      | None \<Rightarrow> False)"

text \<open>
  Modelled from the spec: \<^verbatim>\<open>js_touserdata\<close>, the native resource of the typed handle at
  \<open>idx\<close>, when it carries the tag.
\<close>

definition js_touserdata :: "js_State \<Rightarrow> int \<Rightarrow> string \<Rightarrow> nat option" where
  "js_touserdata J idx tag =
     (case js_objectof J (stackidx J idx) of
        Some obj \<Rightarrow> (case otype obj of JS_CUSERDATA t d f \<Rightarrow> (if t = tag then Some d else None) | _ \<Rightarrow> None)
      | None \<Rightarrow> None)"

text \<open>
  Modelled from the spec: \<open>defineProperty(object, name, value, flags)\<close> on the object at
  address \<open>a\<close>: the name is bound to the value with exactly these flags, shadowing a
  prior binding.
\<close>

definition jsR_defproperty :: "js_State \<Rightarrow> nat \<Rightarrow> string \<Rightarrow> int \<Rightarrow> js_Value \<Rightarrow> js_State" where
  "jsR_defproperty J a n atts v =
     J\<lparr>heap := (heap J)[a := (heap J ! a)\<lparr>properties :=
          AList.update n \<lparr>pvalue = v, patts = atts\<rparr> (properties (heap J ! a))\<rparr>]\<rparr>"

text \<open>
  Modelled from the spec: \<^verbatim>\<open>js_defproperty(J, idx, name, atts)\<close> pops the value on top
  of the stack and binds it, with the flags, on the object at \<open>idx\<close> (an index of the
  stack before the pop). A target that is no object of the heap is an error.
\<close>

definition js_defproperty :: "js_State \<Rightarrow> int \<Rightarrow> string \<Rightarrow> int \<Rightarrow> js_State" where
  "js_defproperty J idx n atts =
     (case stackidx J idx of
        JS_TOBJECT a \<Rightarrow>
          (if a < length (heap J) then js_pop1 (jsR_defproperty J a n atts (stackidx J (-1)))
           else js_error (js_pop1 J) ''not an object'')
      | _ \<Rightarrow> js_error (js_pop1 J) ''not an object'')"

text \<open>
  Modelled from the spec: \<^verbatim>\<open>js_defglobal(J, name, atts)\<close> does the same on the global
  object.
\<close>

definition js_defglobal :: "js_State \<Rightarrow> string \<Rightarrow> int \<Rightarrow> js_State" where
  "js_defglobal J n atts = js_pop1 (jsR_defproperty J (G J) n atts (stackidx J (-1)))"

text \<open>
  Modelled from the spec: \<^verbatim>\<open>js_setglobal(J, name)\<close>, the spec's \<open>defineGlobal(name, value)\<close>,
  a binding with no flag.
\<close>

definition js_setglobal :: "js_State \<Rightarrow> string \<Rightarrow> js_State" where
  "js_setglobal J n = js_pop1 (jsR_defproperty J (G J) n 0 (stackidx J (-1)))"

text \<open>
  Modelled from the spec: \<^verbatim>\<open>js_newcfunction(J, fun, name, length)\<close> pushes a function
  object for the routine.
\<close>

definition js_newcfunction :: "js_State \<Rightarrow> js_CFunction \<Rightarrow> string \<Rightarrow> int \<Rightarrow> js_State" where
  "js_newcfunction J f nm len =
     js_pushnewobject J \<lparr>otype = JS_CCFUNCTION f None nm len, properties = []\<rparr>"

text \<open>
  Modelled from the spec: \<^verbatim>\<open>js_newcconstructor(J, fun, con, name, length)\<close>, the spec's
  \<open>newConstructor(...)\<close>, pops the object on top of the stack, which becomes the
  \<^verbatim>\<open>prototype\<close> property of the new function object, and pushes the function object,
  with one routine for a plain call and one for \<^verbatim>\<open>new\<close>.
\<close>

definition js_newcconstructor :: "js_State \<Rightarrow> js_CFunction \<Rightarrow> js_CFunction \<Rightarrow> string \<Rightarrow> int \<Rightarrow> js_State" where
  "js_newcconstructor J f c nm len =
     js_pushnewobject (js_pop1 J)
       \<lparr>otype = JS_CCFUNCTION f (Some c) nm len,
        properties = [(''prototype'', \<lparr>pvalue = stackidx J (-1), patts = JS_DONTENUM OR JS_DONTCONF\<rparr>)]\<rparr>"

text \<open>Modelled from the spec: \<^verbatim>\<open>js_newboolean(J, v)\<close> pushes a boolean object.\<close>

definition js_newboolean :: "js_State \<Rightarrow> bool \<Rightarrow> js_State" where
  "js_newboolean J b = js_pushnewobject J \<lparr>otype = JS_CBOOLEAN b, properties = []\<rparr>"

subsection \<open>What script code can do to a property\<close>

text \<open>
  Modelled from the spec: the meaning of the three flags for script code. A read-only
  property is not overwritten by an assignment, a non-configurable one is not deleted, a
  non-enumerable one is not listed. An assignment to a name that is not bound yet binds
  it with no flag.
\<close>

definition has_flag :: "js_Property \<Rightarrow> int \<Rightarrow> bool" where
  "has_flag p f = (patts p AND f \<noteq> 0)"

definition js_getownproperty :: "js_State \<Rightarrow> nat \<Rightarrow> string \<Rightarrow> js_Property option" where
  "js_getownproperty J a n = (if a < length (heap J) then map_of (properties (heap J ! a)) n else None)"

definition script_assign :: "js_State \<Rightarrow> nat \<Rightarrow> string \<Rightarrow> js_Value \<Rightarrow> js_State" where
  "script_assign J a n v =
     (case js_getownproperty J a n of
        Some p \<Rightarrow> (if has_flag p JS_READONLY then J else jsR_defproperty J a n (patts p) v)
      | None \<Rightarrow> (if a < length (heap J) then jsR_defproperty J a n 0 v else J))"

definition script_delete :: "js_State \<Rightarrow> nat \<Rightarrow> string \<Rightarrow> js_State" where
  "script_delete J a n =
     (case js_getownproperty J a n of
        Some p \<Rightarrow>
          (if has_flag p JS_DONTCONF then J
           else J\<lparr>heap := (heap J)[a := (heap J ! a)\<lparr>properties := AList.delete n (properties (heap J ! a))\<rparr>]\<rparr>)
      | None \<Rightarrow> J)"

definition enumerable :: "js_State \<Rightarrow> nat \<Rightarrow> string \<Rightarrow> bool" where
  "enumerable J a n =
     (case js_getownproperty J a n of Some p \<Rightarrow> \<not> has_flag p JS_DONTENUM | None \<Rightarrow> False)"

definition script_keys :: "js_State \<Rightarrow> nat \<Rightarrow> string list" where
  "script_keys J a =
     (if a < length (heap J)
      then filter (enumerable J a) (remdups (map fst (properties (heap J ! a))))
      else [])"

section \<open>The macros of jSH.h\<close>

subsection \<open>What C leaves to the platform\<close>

text \<open>
  The macros that put a number into a message depend on two things that C does not fix
  and that differ between the builds the header provides for (\<^verbatim>\<open>LINUX\<close>, \<^verbatim>\<open>WINDOWS\<close>,
  DOS). Both are parameters of the model:
  \<^item> the width of \<^verbatim>\<open>long\<close>, which is what the conversion \<^verbatim>\<open>%ld\<close> reads: the type
    parameter \<open>'l\<close> (\<open>32 word\<close> where \<^verbatim>\<open>long\<close> has 32 bits, \<open>64 word\<close> where it has 64, as
    on Linux), together with \<open>up\<close>, the bits that \<^verbatim>\<open>%ld\<close> finds above an \<^verbatim>\<open>int\<close>;
  \<^item> the result of the cast \<^verbatim>\<open>(int32_t)\<close> on a value whose integer part no 32-bit signed
    integer holds (implementation-defined for an integer operand, undefined for a
    floating one): the function \<open>oor\<close>.
\<close>

text \<open>
  An argument as a variadic function receives it: of type \<^verbatim>\<open>int\<close> (an \<^verbatim>\<open>int32_t\<close>, and
  what the narrower integer types are promoted to) or of type \<^verbatim>\<open>long\<close> (\<open>'w\<close>, which is
  \<open>'l word\<close>).
\<close>

datatype 'w c_vararg = VA_int "32 word" | VA_long 'w

text \<open>
  The \<^verbatim>\<open>long\<close> that \<^verbatim>\<open>%ld\<close> reads for an argument. For a \<^verbatim>\<open>long\<close> argument it is the
  argument. For an \<^verbatim>\<open>int\<close> argument the low 32 bits are the argument's, and the bits above
  them, where \<^verbatim>\<open>long\<close> is wider than 32 bits, are those of \<open>up\<close>: what the place that is
  read happens to hold there. Where \<^verbatim>\<open>long\<close> has 32 bits nothing of \<open>up\<close> is left.
\<close>

definition va_arg_long :: "'l::len word \<Rightarrow> 'l word c_vararg \<Rightarrow> 'l word" where
  "va_arg_long up a = (case a of VA_long w \<Rightarrow> w | VA_int x \<Rightarrow> push_bit 32 up OR ucast x)"

text \<open>Decimal digits of a natural number.\<close>

fun decimal :: "nat \<Rightarrow> string" where
  "decimal n =
     (if n < 10 then [''0123456789'' ! n]
      else decimal (n div 10) @ [''0123456789'' ! (n mod 10)])"

declare decimal.simps [simp del]

text \<open>The conversion \<^verbatim>\<open>%ld\<close>: the \<^verbatim>\<open>long\<close> in decimal, with a minus sign when negative.\<close>

definition format_ld :: "'l::len word \<Rightarrow> string" where
  "format_ld w = (if sint w < 0 then ''-'' @ decimal (nat (- sint w)) else decimal (nat (sint w)))"

text \<open>
  The value of a numeric operand is a rational (every integer and every finite double is
  one). The cast \<^verbatim>\<open>(int32_t)\<close> drops the fraction, towards zero; when a 32-bit signed
  integer holds what is left, that is the result, and otherwise the result is what the
  platform makes of it, \<open>oor\<close>.
\<close>

definition c_trunc :: "rat \<Rightarrow> int" where
  "c_trunc v = (if v < 0 then \<lceil>v\<rceil> else \<lfloor>v\<rfloor>)"

definition int32_t :: "(rat \<Rightarrow> 32 word) \<Rightarrow> rat \<Rightarrow> 32 word" where
  "int32_t oor v =
     (if - (2 ^ 31) \<le> c_trunc v \<and> c_trunc v < 2 ^ 31 then word_of_int (c_trunc v) else oor v)"

text \<open>The values a 32-bit signed integer can hold.\<close>

definition int32_representable :: "rat \<Rightarrow> bool" where
  "int32_representable v = (of_int \<lfloor>v\<rfloor> = v \<and> - (2 ^ 31) \<le> \<lfloor>v\<rfloor> \<and> \<lfloor>v\<rfloor> < 2 ^ 31)"

text \<open>
  A macro pastes the tokens of its argument where its parameter stands, with no
  parentheses around them. \<^verbatim>\<open>JS_CHECKPOS\<close> pastes \<^verbatim>\<open>num\<close> twice, into \<^verbatim>\<open>num < 0\<close> and into
  \<^verbatim>\<open>(int32_t)num\<close>. For an argument that is a single operand (a constant, a variable, a
  call, a unary expression, anything in parentheses) of finite value \<open>v\<close>, the first is
  \<open>v < 0\<close> and the second the cast of \<open>v\<close>, an \<^verbatim>\<open>int\<close>. For any other token sequence C decides what the two expressions
  are (in \<^verbatim>\<open>(int32_t)x - 10\<close> the cast is of \<^verbatim>\<open>x\<close>); such an argument is given by the
  value C gives \<^verbatim>\<open>num < 0\<close> and the value, with its type, C gives \<^verbatim>\<open>(int32_t)num\<close>.
\<close>

datatype 'w c_arg = Operand rat | Compound bool "'w c_vararg"

fun tested_negative :: "'w c_arg \<Rightarrow> bool" where
  "tested_negative (Operand v) = (v < 0)"
| "tested_negative (Compound neg shown) = neg"

fun cast_argument :: "(rat \<Rightarrow> 32 word) \<Rightarrow> 'w c_arg \<Rightarrow> 'w c_vararg" where
  "cast_argument oor (Operand v) = VA_int (int32_t oor v)"
| "cast_argument oor (Compound neg shown) = shown"

subsection \<open>Error messages\<close>

text \<open>
  \<^verbatim>\<open>
  #define JS_ELINUX(j) js_error(j, "Not supported on Linux")
  #define JS_ENOMEM(j) js_error(j, "Out of memory")
  #define JS_ENOARR(j) js_error(j, "Array expected")
  #define JS_EIDX(j, idx) js_error(j, "Index out of bound (%ld)", idx)
  \<close>
  (\<^verbatim>\<open>JS_ELINUX\<close> exists when \<^verbatim>\<open>LINUX == 1\<close>.)
\<close>

definition JS_ELINUX :: "js_State \<Rightarrow> js_State" where
  "JS_ELINUX j = js_error j ''Not supported on Linux''"

definition JS_ENOMEM :: "js_State \<Rightarrow> js_State" where
  "JS_ENOMEM j = js_error j ''Out of memory''"

definition JS_ENOARR :: "js_State \<Rightarrow> js_State" where
  "JS_ENOARR j = js_error j ''Array expected''"

text \<open>
  \<^verbatim>\<open>JS_EIDX\<close> hands \<^verbatim>\<open>idx\<close> to \<^verbatim>\<open>%ld\<close> as it is: the argument has the type the caller's
  expression has.
\<close>

definition JS_EIDX :: "js_State \<Rightarrow> 'l::len word \<Rightarrow> 'l word c_vararg \<Rightarrow> js_State" where
  "JS_EIDX j up idx = js_error j (''Index out of bound ('' @ format_ld (va_arg_long up idx) @ '')'')"

subsection \<open>Guards\<close>

text \<open>
  A guard is a block that either falls through to the code after it or leaves the
  enclosing native routine (\<^verbatim>\<open>return;\<close>). \<open>then_do\<close> is the enclosing routine: the guard,
  then the rest of the body.
\<close>

datatype flow = Return js_State | Continue js_State

definition then_do :: "flow \<Rightarrow> (js_State \<Rightarrow> js_State) \<Rightarrow> js_State" where
  "then_do g rest = (case g of Return J \<Rightarrow> J | Continue J \<Rightarrow> rest J)"

text \<open>
  \<^verbatim>\<open>
  #define JS_CHECKTYPE(j, idx, type)            \
      {                                         \
          if (!js_isuserdata(j, idx, type)) {   \
              js_error(j, "%s expected", type); \
              return;                           \
          }                                     \
      }
  \<close>
\<close>

definition JS_CHECKTYPE :: "js_State \<Rightarrow> int \<Rightarrow> string \<Rightarrow> flow" where
  "JS_CHECKTYPE j idx ty =
     (if \<not> js_isuserdata j idx ty then Return (js_error j (ty @ '' expected''))
      else Continue j)"

text \<open>
  \<^verbatim>\<open>
  #define JS_CHECKPOS(j, num)                                                 \
      {                                                                       \
          if (num < 0) {                                                      \
              js_error(j, "Non negative number expected: %ld", (int32_t)num); \
              return;                                                         \
          }                                                                   \
      }
  \<close>
\<close>

definition JS_CHECKPOS :: "js_State \<Rightarrow> 'l::len word \<Rightarrow> (rat \<Rightarrow> 32 word) \<Rightarrow> 'l word c_arg \<Rightarrow> flow" where
  "JS_CHECKPOS j up oor num =
     (if tested_negative num
      then Return (js_error j (''Non negative number expected: ''
                                 @ format_ld (va_arg_long up (cast_argument oor num))))
      else Continue j)"

subsection \<open>Exposing native routines\<close>

text \<open>
  \<^verbatim>\<open>
  #define CTORDEF(j, f, t, p)                \
      {                                      \
          js_newcconstructor(J, f, f, t, p); \
          js_defglobal(J, t, JS_DONTENUM);   \
      }
  \<close>
  The body names \<^verbatim>\<open>J\<close>, the variable of that name where the macro is used, and not its
  parameter \<^verbatim>\<open>j\<close>: \<open>J\<close> is the first argument of the model, \<open>j\<close> the second.
\<close>

definition CTORDEF :: "js_State \<Rightarrow> js_State \<Rightarrow> js_CFunction \<Rightarrow> string \<Rightarrow> int \<Rightarrow> js_State" where
  "CTORDEF J j f t p = js_defglobal (js_newcconstructor J f f t p) t JS_DONTENUM"

text \<open>
  \<^verbatim>\<open>
  #define NFUNCDEF(j, n, p)                 \
      {                                     \
          js_newcfunction(j, f_##n, #n, p); \
          js_setglobal(j, #n);              \
      }
  \<close>
  \<^verbatim>\<open>f_##n\<close> is the identifier made of \<^verbatim>\<open>f_\<close> and the token \<open>n\<close>, \<^verbatim>\<open>#n\<close> the token as a
  string.
\<close>

definition NFUNCDEF :: "js_State \<Rightarrow> string \<Rightarrow> int \<Rightarrow> js_State" where
  "NFUNCDEF j n p = js_setglobal (js_newcfunction j (''f_'' @ n) n p) n"

text \<open>
  \<^verbatim>\<open>
  #define NPROTDEF(j, t, n, p)                                                \
      {                                                                       \
          js_newcfunction(j, t##_##n, #t ".prototype." #n, p);                \
          js_defproperty(j, -2, #n, JS_READONLY | JS_DONTENUM | JS_DONTCONF); \
      }
  \<close>
\<close>

definition NPROTDEF :: "js_State \<Rightarrow> string \<Rightarrow> string \<Rightarrow> int \<Rightarrow> js_State" where
  "NPROTDEF j t n p =
     js_defproperty (js_newcfunction j (t @ ''_'' @ n) (t @ ''.prototype.'' @ n) p)
       (-2) n (JS_READONLY OR JS_DONTENUM OR JS_DONTCONF)"

text \<open>
  \<^verbatim>\<open>
  #define PROPDEF_B(j, i, n)   \
      {                        \
          js_newboolean(j, i); \
          js_setglobal(j, n);  \
      }
  \<close>
\<close>

definition PROPDEF_B :: "js_State \<Rightarrow> bool \<Rightarrow> string \<Rightarrow> js_State" where
  "PROPDEF_B j i n = js_setglobal (js_newboolean j i) n"

text \<open>
  Modelled from the spec: the finalizers the engine state holds for a type tag, those of
  its typed handles of that tag ("a finalizer invoked when an instance becomes
  unreachable").
\<close>

definition js_finalizers :: "js_State \<Rightarrow> string \<Rightarrow> js_CFunction list" where
  "js_finalizers J tag =
     concat (map (\<lambda>obj. case otype obj of
                           JS_CUSERDATA t d fin \<Rightarrow> (if t = tag then (case fin of Some f \<Rightarrow> [f] | None \<Rightarrow> []) else [])
                         | _ \<Rightarrow> [])
              (heap J))"

subsection \<open>Outcomes of a guard\<close>

text \<open>The state a guard leaves, whichever way it leaves, and whether it left the routine.\<close>

definition state_of :: "flow \<Rightarrow> js_State" where
  "state_of g = (case g of Return J \<Rightarrow> J | Continue J \<Rightarrow> J)"


section \<open>The script execution driver\<close>

text \<open>
  Modelled from the spec: the filesystem collaborator, "exists(path) -> bool;
  readAll(path) -> bytes | NotFound", as a map from paths to contents, and the body of
  \<^verbatim>\<open>jsh_file_exists\<close>, of which \<^verbatim>\<open>jSH.h\<close> has only the declaration
  \<^verbatim>\<open>extern bool jsh_file_exists(const char *filename)\<close>.
\<close>

type_synonym filesystem = "string \<rightharpoonup> string"

definition jsh_file_exists :: "filesystem \<Rightarrow> string \<Rightarrow> bool" where
  "jsh_file_exists fs filename = (fs filename \<noteq> None)"

datatype status = Success | CompileError | RuntimeError | FileNotFound

text \<open>
  Modelled from the spec: the body of \<^verbatim>\<open>jsh_do_file\<close>, of which \<^verbatim>\<open>jSH.h\<close> has only the
  declaration \<^verbatim>\<open>extern int jsh_do_file(js_State *J, const char *fname)\<close>. The spec:
  "runFile(path) -> status: loads the file's content (external filesystem collaborator),
  compiles and executes it in the engine (external engine collaborator), and returns a
  status distinguishing {success, compileError, runtimeError, fileNotFound}", along
  "Idle -> Loading -> {CompileError | Compiled} -> {RuntimeError | Completed}". The
  engine's compiler (\<open>None\<close> when the source does not compile) and its execution (false
  when the script ends in an uncaught error) are parameters.
\<close>

definition jsh_do_file :: "(string \<Rightarrow> 'c option) \<Rightarrow> ('c \<Rightarrow> bool) \<Rightarrow> filesystem \<Rightarrow> string \<Rightarrow> status" where
  "jsh_do_file compile run fs fname =
     (case fs fname of
        None \<Rightarrow> FileNotFound
      | Some src \<Rightarrow>
          (case compile src of
             None \<Rightarrow> CompileError
           | Some code \<Rightarrow> (if run code then Success else RuntimeError)))"

section \<open>Example inputs\<close>

text \<open>A filesystem with one script, and an engine in which every source compiles and runs.\<close>

definition fs_boot :: filesystem where
  "fs_boot = [''JSBOOT/func.js'' \<mapsto> ''var x = 1;'']"

text \<open>
  An engine state inside a native routine: the global object at address 0, a plain object
  at address 1 (a prototype under construction), a typed handle of tag \<^verbatim>\<open>File\<close> for the
  native resource 42 at address 2; on the stack the handle (index 0), a number (index 1)
  and the plain object (on top).
\<close>

definition J_example :: js_State where
  "J_example =
     \<lparr>heap = [\<lparr>otype = JS_COBJECT, properties = []\<rparr>,
              \<lparr>otype = JS_COBJECT, properties = []\<rparr>,
              \<lparr>otype = JS_CUSERDATA ''File'' 42 None, properties = []\<rparr>],
      G = 0,
      stack = [JS_TOBJECT 2, JS_TNUMBER 3, JS_TOBJECT 1],
      exception = None\<rparr>"

text \<open>
  Two platforms' results for a cast out of range: the x86 conversion of a floating value
  gives the least 32-bit integer; the narrowing of an integer keeps its low 32 bits.
\<close>

definition x86_out_of_range :: "rat \<Rightarrow> 32 word" where
  "x86_out_of_range v = - (2 ^ 31)"

definition low_bits_out_of_range :: "rat \<Rightarrow> 32 word" where
  "low_bits_out_of_range v = word_of_int (c_trunc v)"

text \<open>The rest of a native routine that sets a sentinel, a global boolean.\<close>

definition set_sentinel :: "js_State \<Rightarrow> js_State" where
  "set_sentinel J = PROPDEF_B J True ''sentinel''"

definition compile_any :: "string \<Rightarrow> string option" where
  "compile_any src = Some src"

definition run_any :: "string \<Rightarrow> bool" where
  "run_any code = True"

section \<open>Properties of the engine primitives\<close>

lemma stackidx_top: "stack J = xs @ [v] \<Longrightarrow> stackidx J (-1) = v"
  by (simp add: stackidx_def)

lemma stackidx_below:
  assumes "stack J = xs @ [v]" and "xs \<noteq> []"
  shows "stackidx J (-2) = last xs"
proof -
  from assms(2) have len: "0 < length xs" by simp
  then have n: "nat (int (length xs) + 1 - 2) = length xs - 1" by simp
  have "(xs @ [v]) ! (length xs - 1) = xs ! (length xs - 1)"
    using len by (simp add: nth_append)
  also have "\<dots> = last xs"
    using assms(2) by (simp add: last_conv_nth)
  finally show ?thesis
    using len n by (simp add: stackidx_def assms(1))
qed

lemma js_newcfunction_eq:
  "js_newcfunction J f nm len =
     J\<lparr>heap := heap J @ [\<lparr>otype = JS_CCFUNCTION f None nm len, properties = []\<rparr>],
       stack := stack J @ [JS_TOBJECT (length (heap J))]\<rparr>"
  by (simp add: js_newcfunction_def js_pushnewobject_def js_push_def)

lemma js_newcconstructor_eq:
  "js_newcconstructor J f c nm len =
     J\<lparr>heap := heap J @ [\<lparr>otype = JS_CCFUNCTION f (Some c) nm len,
                           properties = [(''prototype'', \<lparr>pvalue = stackidx J (-1), patts = JS_DONTENUM OR JS_DONTCONF\<rparr>)]\<rparr>],
       stack := butlast (stack J) @ [JS_TOBJECT (length (heap J))]\<rparr>"
  by (simp add: js_newcconstructor_def js_pushnewobject_def js_push_def js_pop1_def)

lemma js_defproperty_eq:
  assumes "stack J = xs @ [v]" and "stackidx J idx = JS_TOBJECT a" and "a < length (heap J)"
  shows "js_defproperty J idx n atts =
           J\<lparr>heap := (heap J)[a := (heap J ! a)\<lparr>properties :=
                 AList.update n \<lparr>pvalue = v, patts = atts\<rparr> (properties (heap J ! a))\<rparr>],
             stack := xs\<rparr>"
  using assms(2,3) stackidx_top [OF assms(1)]
  by (simp add: js_defproperty_def jsR_defproperty_def js_pop1_def assms(1))

lemma jsR_defglobal_eq:
  assumes "stack J = xs @ [v]"
  shows "js_pop1 (jsR_defproperty J (G J) n atts (stackidx J (-1))) =
           J\<lparr>heap := (heap J)[G J := (heap J ! G J)\<lparr>properties :=
                 AList.update n \<lparr>pvalue = v, patts = atts\<rparr> (properties (heap J ! G J))\<rparr>],
             stack := xs\<rparr>"
  using stackidx_top [OF assms]
  by (simp add: jsR_defproperty_def js_pop1_def assms)

lemma NPROTDEF_result:
  assumes "stack j \<noteq> []" and "last (stack j) = JS_TOBJECT a" and "a < length (heap j)"
  shows "NPROTDEF j t n p =
           j\<lparr>heap := (heap j)[a := (heap j ! a)\<lparr>properties :=
                 AList.update n \<lparr>pvalue = JS_TOBJECT (length (heap j)),
                                 patts = JS_READONLY OR JS_DONTENUM OR JS_DONTCONF\<rparr>
                   (properties (heap j ! a))\<rparr>]
               @ [\<lparr>otype = JS_CCFUNCTION (t @ ''_'' @ n) None (t @ ''.prototype.'' @ n) p, properties = []\<rparr>]\<rparr>"
proof -
  let ?J1 = "js_newcfunction j (t @ ''_'' @ n) (t @ ''.prototype.'' @ n) p"
  have st: "stack ?J1 = stack j @ [JS_TOBJECT (length (heap j))]"
    by (simp add: js_newcfunction_eq)
  have below: "stackidx ?J1 (-2) = JS_TOBJECT a"
    using stackidx_below [OF st assms(1)] assms(2) by simp
  have a: "a < length (heap ?J1)"
    using assms(3) by (simp add: js_newcfunction_eq)
  show ?thesis
    unfolding NPROTDEF_def js_defproperty_eq [OF st below a]
    using assms(3) by (simp add: js_newcfunction_eq nth_append list_update_append)
qed

lemma NFUNCDEF_result:
  assumes "G j < length (heap j)"
  shows "NFUNCDEF j n p =
           j\<lparr>heap := (heap j)[G j := (heap j ! G j)\<lparr>properties :=
                 AList.update n \<lparr>pvalue = JS_TOBJECT (length (heap j)), patts = 0\<rparr>
                   (properties (heap j ! G j))\<rparr>]
               @ [\<lparr>otype = JS_CCFUNCTION (''f_'' @ n) None n p, properties = []\<rparr>]\<rparr>"
proof -
  let ?J1 = "js_newcfunction j (''f_'' @ n) n p"
  have st: "stack ?J1 = stack j @ [JS_TOBJECT (length (heap j))]"
    by (simp add: js_newcfunction_eq)
  show ?thesis
    unfolding NFUNCDEF_def js_setglobal_def jsR_defglobal_eq [OF st]
    using assms by (simp add: js_newcfunction_eq nth_append list_update_append)
qed

lemma CTORDEF_result:
  assumes "G J < length (heap J)"
  shows "CTORDEF J j f t p =
           J\<lparr>heap := (heap J)[G J := (heap J ! G J)\<lparr>properties :=
                 AList.update t \<lparr>pvalue = JS_TOBJECT (length (heap J)), patts = JS_DONTENUM\<rparr>
                   (properties (heap J ! G J))\<rparr>]
               @ [\<lparr>otype = JS_CCFUNCTION f (Some f) t p,
                   properties = [(''prototype'', \<lparr>pvalue = stackidx J (-1), patts = JS_DONTENUM OR JS_DONTCONF\<rparr>)]\<rparr>],
             stack := butlast (stack J)\<rparr>"
proof -
  let ?J1 = "js_newcconstructor J f f t p"
  have st: "stack ?J1 = butlast (stack J) @ [JS_TOBJECT (length (heap J))]"
    by (simp add: js_newcconstructor_eq)
  show ?thesis
    unfolding CTORDEF_def js_defglobal_def jsR_defglobal_eq [OF st]
    using assms by (simp add: js_newcconstructor_eq nth_append list_update_append)
qed

lemma js_getownproperty_bound:
  assumes "a < length hs"
  shows "js_getownproperty (J\<lparr>heap := hs[a := (hs ! a)\<lparr>properties := AList.update n pr (properties (hs ! a))\<rparr>] @ rest\<rparr>) a n
           = Some pr"
  using assms by (simp add: js_getownproperty_def nth_append update_Some_unfold AList.update_conv')

lemma script_assign_readonly:
  "js_getownproperty J a n = Some pr \<Longrightarrow> has_flag pr JS_READONLY \<Longrightarrow> script_assign J a n v = J"
  by (simp add: script_assign_def)

lemma script_delete_dontconf:
  "js_getownproperty J a n = Some pr \<Longrightarrow> has_flag pr JS_DONTCONF \<Longrightarrow> script_delete J a n = J"
  by (simp add: script_delete_def)

lemma script_keys_iff:
  "n \<in> set (script_keys J a) \<longleftrightarrow> (\<exists>pr. js_getownproperty J a n = Some pr \<and> \<not> has_flag pr JS_DONTENUM)"
proof (cases "a < length (heap J)")
  case True
  have "enumerable J a n \<Longrightarrow> n \<in> fst ` set (properties (heap J ! a))"
    using True by (auto simp: enumerable_def js_getownproperty_def split: option.splits dest: map_of_SomeD intro: rev_image_eqI)
  then show ?thesis
    using True by (auto simp: script_keys_def enumerable_def split: option.splits)
next
  case False
  then show ?thesis by (simp add: script_keys_def js_getownproperty_def)
qed

lemma script_assign_writable:
  assumes "js_getownproperty J a n = Some pr" and "\<not> has_flag pr JS_READONLY"
  shows "js_getownproperty (script_assign J a n v) a n = Some \<lparr>pvalue = v, patts = patts pr\<rparr>"
proof -
  from assms(1) have a: "a < length (heap J)"
    by (auto simp: js_getownproperty_def split: if_splits)
  show ?thesis
    using assms a by (simp add: script_assign_def jsR_defproperty_def js_getownproperty_def AList.update_conv')
qed

lemma script_delete_configurable:
  assumes "js_getownproperty J a n = Some pr" and "\<not> has_flag pr JS_DONTCONF"
  shows "js_getownproperty (script_delete J a n) a n = None"
proof -
  from assms(1) have a: "a < length (heap J)"
    by (auto simp: js_getownproperty_def split: if_splits)
  show ?thesis
    using assms a by (simp add: script_delete_def js_getownproperty_def AList.delete_conv')
qed

lemma flags_all: "JS_READONLY OR JS_DONTENUM OR JS_DONTCONF = 7"
  by (simp add: JS_READONLY_def JS_DONTENUM_def JS_DONTCONF_def)

lemma has_flag_simps:
  "has_flag \<lparr>pvalue = v, patts = 7\<rparr> JS_READONLY"
  "has_flag \<lparr>pvalue = v, patts = 7\<rparr> JS_DONTENUM"
  "has_flag \<lparr>pvalue = v, patts = 7\<rparr> JS_DONTCONF"
  "\<not> has_flag \<lparr>pvalue = v, patts = 0\<rparr> JS_READONLY"
  "\<not> has_flag \<lparr>pvalue = v, patts = 0\<rparr> JS_DONTENUM"
  "\<not> has_flag \<lparr>pvalue = v, patts = 0\<rparr> JS_DONTCONF"
  "\<not> has_flag \<lparr>pvalue = v, patts = JS_DONTENUM\<rparr> JS_READONLY"
  "has_flag \<lparr>pvalue = v, patts = JS_DONTENUM\<rparr> JS_DONTENUM"
  "\<not> has_flag \<lparr>pvalue = v, patts = JS_DONTENUM\<rparr> JS_DONTCONF"
  by (simp_all add: has_flag_def JS_READONLY_def JS_DONTENUM_def JS_DONTCONF_def)

lemma js_finalizers_heap:
  assumes "a < length hs" and "otype obj = otype (hs ! a)"
  shows "js_finalizers (J\<lparr>heap := hs[a := obj] @ [\<lparr>otype = JS_CCFUNCTION f c nm len, properties = ps\<rparr>], stack := st\<rparr>) tag
           = js_finalizers (J\<lparr>heap := hs\<rparr>) tag"
proof -
  let ?g = "\<lambda>obj. case otype obj of
                    JS_CUSERDATA t d fin \<Rightarrow> (if t = tag then (case fin of Some f \<Rightarrow> [f] | None \<Rightarrow> []) else [])
                  | _ \<Rightarrow> []"
  have "map ?g (hs[a := obj]) = map ?g hs"
    by (rule nth_equalityI) (auto simp: nth_list_update assms)
  then show ?thesis
    by (simp add: js_finalizers_def)
qed

lemmas engine_defs =
  J_example_def set_sentinel_def PROPDEF_B_def js_newboolean_def js_pushnewobject_def js_push_def
  js_pop1_def js_setglobal_def js_defglobal_def js_defproperty_def jsR_defproperty_def stackidx_def
  js_error_def js_getownproperty_def js_isuserdata_def js_touserdata_def js_objectof_def
  js_newcfunction_def js_newcconstructor_def

section \<open>Properties of the conversions\<close>

lemma decimal_digit: "n < 10 \<Longrightarrow> decimal n = [''0123456789'' ! n]"
  by (subst decimal.simps) simp

lemma decimal_more: "\<not> n < 10 \<Longrightarrow> decimal n = decimal (n div 10) @ [''0123456789'' ! (n mod 10)]"
  by (subst decimal.simps) simp



lemma ld_m5_long32:
  "format_ld (va_arg_long (0 :: 32 word) (VA_int (int32_t x86_out_of_range (- 5)))) = ''-5''"
proof -
  have "sint (va_arg_long (0 :: 32 word) (VA_int (int32_t x86_out_of_range (- 5)))) = - 5"
    by code_simp
  then show ?thesis by (simp add: format_ld_def decimal_digit)
qed



lemma ld_m5_long64_zero:
  "format_ld (va_arg_long (0 :: 64 word) (VA_int (int32_t x86_out_of_range (- 5)))) = ''4294967291''"
proof -
  have "sint (va_arg_long (0 :: 64 word) (VA_int (int32_t x86_out_of_range (- 5)))) = 4294967291"
    by code_simp
  then show ?thesis by (simp add: format_ld_def decimal_digit decimal_more)
qed

lemma ld_m5_long64_ones:
  "format_ld (va_arg_long (- 1 :: 64 word) (VA_int (int32_t x86_out_of_range (- 5)))) = ''-5''"
proof -
  have "sint (va_arg_long (- 1 :: 64 word) (VA_int (int32_t x86_out_of_range (- 5)))) = - 5"
    by code_simp
  then show ?thesis by (simp add: format_ld_def decimal_digit)
qed

lemma ld_min_long64_zero:
  "format_ld (va_arg_long (0 :: 64 word) (VA_int (int32_t x86_out_of_range (- 2147483649)))) = ''2147483648''"
proof -
  have "sint (va_arg_long (0 :: 64 word) (VA_int (int32_t x86_out_of_range (- 2147483649)))) = 2147483648"
    by code_simp
  then show ?thesis by (simp add: format_ld_def decimal_digit decimal_more)
qed

lemma ld_wide_long64_ones:
  "format_ld (va_arg_long (- 1 :: 64 word) (VA_int (int32_t low_bits_out_of_range (- 2147483649))))
     = ''-2147483649''"
proof -
  have "sint (va_arg_long (- 1 :: 64 word) (VA_int (int32_t low_bits_out_of_range (- 2147483649))))
          = - 2147483649"
    by code_simp
  then show ?thesis by (simp add: format_ld_def decimal_digit decimal_more)
qed

lemma ld_int_m1_long64: "format_ld (va_arg_long (0 :: 64 word) (VA_int (- 1))) = ''4294967295''"
proof -
  have "sint (va_arg_long (0 :: 64 word) (VA_int (- 1))) = 4294967295"
    by code_simp
  then show ?thesis by (simp add: format_ld_def decimal_digit decimal_more)
qed

lemma ld_long_m1_long64: "format_ld (va_arg_long (0 :: 64 word) (VA_long (- 1))) = ''-1''"
proof -
  have "sint (va_arg_long (0 :: 64 word) (VA_long (- 1))) = - 1"
    by code_simp
  then show ?thesis by (simp add: format_ld_def decimal_digit)
qed

lemma ld_int_m5_long32: "format_ld (va_arg_long (0 :: 32 word) (VA_int (- 5))) = ''-5''"
proof -
  have "sint (va_arg_long (0 :: 32 word) (VA_int (- 5))) = - 5"
    by code_simp
  then show ?thesis by (simp add: format_ld_def decimal_digit)
qed

section \<open>Properties of the guards\<close>




text \<open>
  Claim C4, as amended. For every engine state, stack index and expected tag: when the
  value at the index carries the tag, \<^verbatim>\<open>JS_CHECKTYPE\<close> raises nothing, leaves the state
  as it is and the routine goes on (the guard is a block and yields no value; the native
  handle is what the engine's \<^verbatim>\<open>js_touserdata\<close> reads at the same index); when the value
  does not carry the tag, it raises the error whose message names the expected type and
  the routine returns at once, the code after the guard not being run.
\<close>

theorem JS_CHECKTYPE_guard:
  "(js_isuserdata j idx ty \<longrightarrow>
      JS_CHECKTYPE j idx ty = Continue j \<and>
      then_do (JS_CHECKTYPE j idx ty) rest = rest j \<and>
      (\<exists>h. js_touserdata j idx ty = Some h)) \<and>
   (\<not> js_isuserdata j idx ty \<longrightarrow>
      JS_CHECKTYPE j idx ty = Return (js_error j (ty @ '' expected'')) \<and>
      then_do (JS_CHECKTYPE j idx ty) rest = js_error j (ty @ '' expected'') \<and>
      exception (then_do (JS_CHECKTYPE j idx ty) rest) = Some (ty @ '' expected''))"
  by (auto simp: JS_CHECKTYPE_def then_do_def js_isuserdata_def js_touserdata_def js_error_def
           split: option.splits js_Class.splits)

theorem JS_CHECKTYPE_guard_witness:
  "js_isuserdata J_example 0 ''File'' \<and>
   JS_CHECKTYPE J_example 0 ''File'' = Continue J_example \<and>
   then_do (JS_CHECKTYPE J_example 0 ''File'') set_sentinel = set_sentinel J_example \<and>
   \<not> js_isuserdata J_example 1 ''File'' \<and>
   then_do (JS_CHECKTYPE J_example 1 ''File'') set_sentinel = js_error J_example ''File expected'' \<and>
   js_getownproperty (then_do (JS_CHECKTYPE J_example 1 ''File'') set_sentinel) 0 ''sentinel'' = None \<and>
   \<not> js_isuserdata J_example 0 ''Socket'' \<and>
   exception (then_do (JS_CHECKTYPE J_example 0 ''Socket'') set_sentinel) = Some ''Socket expected''"
proof -
  have a: "js_isuserdata J_example 0 ''File''"
    by (simp add: engine_defs)
  have b: "\<not> js_isuserdata J_example 1 ''File''"
    by (simp add: engine_defs)
  have c: "\<not> js_isuserdata J_example 0 ''Socket''"
    by (simp add: engine_defs)
  have n: "js_getownproperty (js_error J_example ''File expected'') 0 ''sentinel'' = None"
    by (simp add: engine_defs)
  have e: "exception (js_error J_example ''Socket expected'') = Some ''Socket expected''"
    by (simp add: js_error_def)
  from a b c
    JS_CHECKTYPE_guard [of J_example 0 "''File''" set_sentinel]
    JS_CHECKTYPE_guard [of J_example 1 "''File''" set_sentinel]
    JS_CHECKTYPE_guard [of J_example 0 "''Socket''" set_sentinel]
  show ?thesis
    by (simp add: then_do_def n e)
qed

text \<open>
  Claim C4 as stated has the guard return the native handle. With the typed handle of
  the resource 42 at index 0, all that the guard yields is the unchanged engine state,
  for the routine to go on with.
\<close>

theorem JS_CHECKTYPE_yields_no_handle_counterexample:
  "js_touserdata J_example 0 ''File'' = Some 42 \<and>
   JS_CHECKTYPE J_example 0 ''File'' = Continue J_example"
  by (simp add: JS_CHECKTYPE_def engine_defs)

section \<open>Messages where long has 64 bits\<close>

text \<open>
  Claim C10 says that the value in the message of \<^verbatim>\<open>JS_CHECKPOS\<close> is the argument cast to
  a 32-bit signed integer. The macro hands that \<^verbatim>\<open>int32_t\<close> to \<^verbatim>\<open>%ld\<close>, which reads a
  \<^verbatim>\<open>long\<close>. Where \<^verbatim>\<open>long\<close> has 64 bits (the Linux build), with zero above the \<^verbatim>\<open>int\<close>: for
  the argument \<open>-5\<close> the cast is \<open>-5\<close> and the message has \<open>4294967291\<close>; for a floating
  argument below the 32-bit range, which x86 casts to the least 32-bit integer, the
  message has \<open>2147483648\<close>. With the sign bits of a 64-bit argument above the \<^verbatim>\<open>int\<close>, the
  message for \<open>-2147483649\<close>, no value of a 32-bit integer, has the argument itself.
  Where \<^verbatim>\<open>long\<close> has 32 bits the message for \<open>-5\<close> has \<open>-5\<close>. And for the compound argument
  \<^verbatim>\<open>x - 10\<close> with the double \<open>x = 5.5\<close>, of value \<open>-4.5\<close>, the macro casts \<^verbatim>\<open>x\<close> and hands
  over \<open>5 - 10\<close>: the message has \<open>-5\<close>, not the cast \<open>-4\<close> of the argument.
\<close>

theorem JS_CHECKPOS_message_long64:
  "sint (int32_t x86_out_of_range (- 5)) = - 5 \<and>
   exception (state_of (JS_CHECKPOS J_example (0 :: 64 word) x86_out_of_range (Operand (- 5))))
     = Some ''Non negative number expected: 4294967291'' \<and>
   exception (state_of (JS_CHECKPOS J_example (0 :: 64 word) x86_out_of_range (Operand (- 2147483649))))
     = Some ''Non negative number expected: 2147483648'' \<and>
   \<not> int32_representable (- 2147483649) \<and>
   exception (state_of (JS_CHECKPOS J_example (- 1 :: 64 word) low_bits_out_of_range (Operand (- 2147483649))))
     = Some ''Non negative number expected: -2147483649'' \<and>
   exception (state_of (JS_CHECKPOS J_example (0 :: 32 word) x86_out_of_range (Operand (- 5))))
     = Some ''Non negative number expected: -5'' \<and>
   sint (int32_t x86_out_of_range (- 9 / 2)) = - 4 \<and>
   exception (state_of (JS_CHECKPOS J_example (0 :: 32 word) x86_out_of_range (Compound True (VA_int (- 5)))))
     = Some ''Non negative number expected: -5''"
proof -
  have a: "sint (int32_t x86_out_of_range (- 5)) = - 5"
    by code_simp
  have b: "\<not> int32_representable (- 2147483649)"
    by code_simp
  have c: "sint (int32_t x86_out_of_range (- (9 / 2))) = - 4"
    by code_simp
  show ?thesis
    by (simp add: a b c JS_CHECKPOS_def state_of_def js_error_def
          ld_m5_long64_zero ld_min_long64_zero ld_wide_long64_ones ld_m5_long32 ld_int_m5_long32)
qed

text \<open>
  Claim C5 says that two failures of the same kind with the same parameters yield the
  same message, character for character. Where \<^verbatim>\<open>long\<close> has 64 bits, with zero above an
  \<^verbatim>\<open>int\<close>: \<^verbatim>\<open>JS_EIDX\<close> for the index \<open>-1\<close> raises \<open>Index out of bound (4294967295)\<close> when the
  index is an \<^verbatim>\<open>int\<close> and \<open>Index out of bound (-1)\<close> when it is a \<^verbatim>\<open>long\<close>; and \<^verbatim>\<open>JS_CHECKPOS\<close>
  for the value \<open>-5\<close> raises a message with \<open>4294967291\<close> or with \<open>-5\<close>, by what lies above
  the \<^verbatim>\<open>int\<close> it hands over. The parameterless kinds keep their one text.
\<close>

theorem same_parameter_different_message_long64:
  "exception (JS_EIDX J_example (0 :: 64 word) (VA_int (- 1))) = Some ''Index out of bound (4294967295)'' \<and>
   exception (JS_EIDX J_example (0 :: 64 word) (VA_long (- 1))) = Some ''Index out of bound (-1)'' \<and>
   exception (state_of (JS_CHECKPOS J_example (0 :: 64 word) x86_out_of_range (Operand (- 5))))
     = Some ''Non negative number expected: 4294967291'' \<and>
   exception (state_of (JS_CHECKPOS J_example (- 1 :: 64 word) x86_out_of_range (Operand (- 5))))
     = Some ''Non negative number expected: -5'' \<and>
   exception (JS_ENOMEM J_example) = Some ''Out of memory'' \<and>
   exception (JS_ENOARR J_example) = Some ''Array expected'' \<and>
   exception (JS_ELINUX J_example) = Some ''Not supported on Linux''"
  by (simp add: JS_EIDX_def JS_CHECKPOS_def JS_ENOMEM_def JS_ENOARR_def JS_ELINUX_def
        state_of_def js_error_def
        ld_int_m1_long64 ld_long_m1_long64 ld_m5_long64_zero ld_m5_long64_ones)

section \<open>Properties of the exposure macros\<close>

text \<open>
  Claim C3. For every type name \<open>t\<close> and method name \<open>n\<close>, with the prototype object on
  top of the stack (where the macro's index \<open>-2\<close> finds it once the function object is
  pushed): \<^verbatim>\<open>NPROTDEF\<close> binds \<open>n\<close> on that object to a new function object for the routine
  \<^verbatim>\<open>t_n\<close>, with exactly the flags read-only, non-enumerable and non-configurable; so an
  assignment by script code and a deletion by script code change nothing, and \<open>n\<close> is not
  enumerated. The stack is as before.
\<close>

theorem NPROTDEF_installs_protected_method:
  assumes "stack j \<noteq> []" and "last (stack j) = JS_TOBJECT a" and "a < length (heap j)"
  shows "js_getownproperty (NPROTDEF j t n p) a n
           = Some \<lparr>pvalue = JS_TOBJECT (length (heap j)),
                   patts = JS_READONLY OR JS_DONTENUM OR JS_DONTCONF\<rparr> \<and>
         heap (NPROTDEF j t n p) ! length (heap j)
           = \<lparr>otype = JS_CCFUNCTION (t @ ''_'' @ n) None (t @ ''.prototype.'' @ n) p, properties = []\<rparr> \<and>
         script_assign (NPROTDEF j t n p) a n v = NPROTDEF j t n p \<and>
         script_delete (NPROTDEF j t n p) a n = NPROTDEF j t n p \<and>
         n \<notin> set (script_keys (NPROTDEF j t n p) a) \<and>
         stack (NPROTDEF j t n p) = stack j \<and>
         exception (NPROTDEF j t n p) = exception j"
proof -
  let ?J = "NPROTDEF j t n p"
  note r = NPROTDEF_result [OF assms, of t n p]
  have g: "js_getownproperty ?J a n = Some \<lparr>pvalue = JS_TOBJECT (length (heap j)), patts = 7\<rparr>"
    unfolding r flags_all using assms(3) by (rule js_getownproperty_bound)
  have f: "heap ?J ! length (heap j)
             = \<lparr>otype = JS_CCFUNCTION (t @ ''_'' @ n) None (t @ ''.prototype.'' @ n) p, properties = []\<rparr>"
    unfolding r by (simp add: nth_append)
  have w: "script_assign ?J a n v = ?J"
    using g by (rule script_assign_readonly) (rule has_flag_simps)
  have d: "script_delete ?J a n = ?J"
    using g by (rule script_delete_dontconf) (rule has_flag_simps)
  have e: "n \<notin> set (script_keys ?J a)"
    by (simp add: script_keys_iff g has_flag_simps)
  have s: "stack ?J = stack j" "exception ?J = exception j"
    unfolding r by simp_all
  from g f w d e s show ?thesis
    by (simp only: flags_all simp_thms)
qed

theorem NPROTDEF_installs_protected_method_witness:
  "stack J_example \<noteq> [] \<and> last (stack J_example) = JS_TOBJECT 1 \<and> 1 < length (heap J_example) \<and>
   js_getownproperty (NPROTDEF J_example ''File'' ''ReadByte'' 0) 1 ''ReadByte''
     = Some \<lparr>pvalue = JS_TOBJECT 3, patts = 7\<rparr> \<and>
   heap (NPROTDEF J_example ''File'' ''ReadByte'' 0) ! 3
     = \<lparr>otype = JS_CCFUNCTION ''File_ReadByte'' None ''File.prototype.ReadByte'' 0, properties = []\<rparr> \<and>
   script_assign (NPROTDEF J_example ''File'' ''ReadByte'' 0) 1 ''ReadByte'' JS_TUNDEFINED
     = NPROTDEF J_example ''File'' ''ReadByte'' 0 \<and>
   script_delete (NPROTDEF J_example ''File'' ''ReadByte'' 0) 1 ''ReadByte''
     = NPROTDEF J_example ''File'' ''ReadByte'' 0 \<and>
   ''ReadByte'' \<notin> set (script_keys (NPROTDEF J_example ''File'' ''ReadByte'' 0) 1)"
proof -
  have a: "stack J_example \<noteq> []" by (simp add: J_example_def)
  have b: "last (stack J_example) = JS_TOBJECT 1" by (simp add: J_example_def)
  have c: "1 < length (heap J_example)" by (simp add: J_example_def)
  have l: "length (heap J_example) = 3" by (simp add: J_example_def)
  from a b c NPROTDEF_installs_protected_method [where j = J_example and a = 1 and t = "''File''"
      and n = "''ReadByte''" and p = 0 and v = JS_TUNDEFINED, OF a b c]
  show ?thesis
    by (simp add: l flags_all)
qed

text \<open>
  Claim C8, as amended. For every type name \<open>t\<close>, \<^verbatim>\<open>CTORDEF\<close> makes a function object
  whose routine for a plain call and routine for \<^verbatim>\<open>new\<close> are both \<open>f\<close>, and binds it in
  the global object under the name \<open>t\<close> with the one flag non-enumerable, so that script
  code does not enumerate it. The macro takes no finalizer and associates none: the
  finalizers the engine holds for any type tag are the same before and after. (Its
  result does not depend on its parameter \<open>j\<close> either.)
\<close>

theorem CTORDEF_binds_constructor:
  assumes "G J < length (heap J)"
  shows "js_getownproperty (CTORDEF J j f t p) (G J) t
           = Some \<lparr>pvalue = JS_TOBJECT (length (heap J)), patts = JS_DONTENUM\<rparr> \<and>
         otype (heap (CTORDEF J j f t p) ! length (heap J)) = JS_CCFUNCTION f (Some f) t p \<and>
         t \<notin> set (script_keys (CTORDEF J j f t p) (G J)) \<and>
         js_finalizers (CTORDEF J j f t p) tag = js_finalizers J tag \<and>
         CTORDEF J j f t p = CTORDEF J j' f t p"
proof -
  let ?J = "CTORDEF J j f t p"
  note r = CTORDEF_result [OF assms, of j f t p]
  have g: "js_getownproperty ?J (G J) t = Some \<lparr>pvalue = JS_TOBJECT (length (heap J)), patts = JS_DONTENUM\<rparr>"
    unfolding r using assms by (simp add: js_getownproperty_def nth_append AList.update_conv')
  have c: "otype (heap ?J ! length (heap J)) = JS_CCFUNCTION f (Some f) t p"
    unfolding r by (simp add: nth_append)
  have e: "t \<notin> set (script_keys ?J (G J))"
    by (simp add: script_keys_iff g has_flag_simps)
  have fin: "js_finalizers ?J tag = js_finalizers J tag"
    unfolding r by (subst js_finalizers_heap) (simp_all add: assms)
  have same: "CTORDEF J j f t p = CTORDEF J j' f t p"
    by (simp add: CTORDEF_def)
  from g c e fin same show ?thesis by simp
qed

theorem CTORDEF_binds_constructor_witness:
  "G J_example < length (heap J_example) \<and>
   js_getownproperty (CTORDEF J_example J_example ''new_File'' ''File'' 1) 0 ''File''
     = Some \<lparr>pvalue = JS_TOBJECT 3, patts = 2\<rparr> \<and>
   otype (heap (CTORDEF J_example J_example ''new_File'' ''File'' 1) ! 3)
     = JS_CCFUNCTION ''new_File'' (Some ''new_File'') ''File'' 1 \<and>
   ''File'' \<notin> set (script_keys (CTORDEF J_example J_example ''new_File'' ''File'' 1) 0)"
proof -
  have a: "G J_example < length (heap J_example)" by (simp add: J_example_def)
  have g: "G J_example = 0" by (simp add: J_example_def)
  have l: "length (heap J_example) = 3" by (simp add: J_example_def)
  from a CTORDEF_binds_constructor [where J = J_example and j = J_example and f = "''new_File''"
      and t = "''File''" and p = 1 and tag = "''File''" and j' = J_example, OF a]
  show ?thesis
    by (simp add: g l JS_DONTENUM_def)
qed

text \<open>
  Claim C8 as stated has \<^verbatim>\<open>CTORDEF\<close> associate a given finalizer with the instances of
  the type. After \<^verbatim>\<open>CTORDEF(J, new_File, "File", 1)\<close> the engine holds no finalizer for
  the tag \<^verbatim>\<open>File\<close>, and the only routine of the new function object is \<^verbatim>\<open>new_File\<close>.
\<close>

theorem CTORDEF_associates_no_finalizer_counterexample:
  "js_finalizers (CTORDEF J_example J_example ''new_File'' ''File'' 1) ''File'' = [] \<and>
   heap (CTORDEF J_example J_example ''new_File'' ''File'' 1) ! 3
     = \<lparr>otype = JS_CCFUNCTION ''new_File'' (Some ''new_File'') ''File'' 1,
        properties = [(''prototype'', \<lparr>pvalue = JS_TOBJECT 1, patts = 6\<rparr>)]\<rparr>"
  by (simp add: CTORDEF_def js_finalizers_def engine_defs JS_DONTENUM_def JS_DONTCONF_def)

text \<open>
  Claim C9. For every function name \<open>n\<close>, \<^verbatim>\<open>NFUNCDEF\<close> binds \<open>n\<close> in the global object
  to a new function object for the routine \<^verbatim>\<open>f_n\<close> with no flag: script code can
  overwrite the binding, delete it, and sees it enumerated. Unlike that, the method that
  \<^verbatim>\<open>NPROTDEF\<close> installs has all three flags (an assignment and a deletion change nothing,
  it is not enumerated) and the constructor that \<^verbatim>\<open>CTORDEF\<close> binds has the flag
  non-enumerable.
\<close>

theorem NFUNCDEF_binds_unprotected_global:
  assumes "G j < length (heap j)"
  shows "js_getownproperty (NFUNCDEF j n p) (G j) n
           = Some \<lparr>pvalue = JS_TOBJECT (length (heap j)), patts = 0\<rparr> \<and>
         heap (NFUNCDEF j n p) ! length (heap j)
           = \<lparr>otype = JS_CCFUNCTION (''f_'' @ n) None n p, properties = []\<rparr> \<and>
         js_getownproperty (script_assign (NFUNCDEF j n p) (G j) n v) (G j) n
           = Some \<lparr>pvalue = v, patts = 0\<rparr> \<and>
         js_getownproperty (script_delete (NFUNCDEF j n p) (G j) n) (G j) n = None \<and>
         n \<in> set (script_keys (NFUNCDEF j n p) (G j)) \<and>
         (stack j \<noteq> [] \<and> last (stack j) = JS_TOBJECT a \<and> a < length (heap j) \<longrightarrow>
            js_getownproperty (NPROTDEF j t m q) a m
              = Some \<lparr>pvalue = JS_TOBJECT (length (heap j)), patts = 7\<rparr> \<and>
            script_assign (NPROTDEF j t m q) a m v = NPROTDEF j t m q \<and>
            script_delete (NPROTDEF j t m q) a m = NPROTDEF j t m q \<and>
            m \<notin> set (script_keys (NPROTDEF j t m q) a)) \<and>
         js_getownproperty (CTORDEF j j' f tn r) (G j) tn
           = Some \<lparr>pvalue = JS_TOBJECT (length (heap j)), patts = 2\<rparr> \<and>
         tn \<notin> set (script_keys (CTORDEF j j' f tn r) (G j))"
proof -
  let ?J = "NFUNCDEF j n p"
  note r = NFUNCDEF_result [OF assms, of n p]
  have g: "js_getownproperty ?J (G j) n = Some \<lparr>pvalue = JS_TOBJECT (length (heap j)), patts = 0\<rparr>"
    unfolding r using assms by (rule js_getownproperty_bound)
  have f: "heap ?J ! length (heap j) = \<lparr>otype = JS_CCFUNCTION (''f_'' @ n) None n p, properties = []\<rparr>"
    unfolding r by (simp add: nth_append)
  have w: "js_getownproperty (script_assign ?J (G j) n v) (G j) n = Some \<lparr>pvalue = v, patts = 0\<rparr>"
    using script_assign_writable [OF g has_flag_simps(4), of v] by simp
  have d: "js_getownproperty (script_delete ?J (G j) n) (G j) n = None"
    by (rule script_delete_configurable [OF g has_flag_simps(6)])
  have e: "n \<in> set (script_keys ?J (G j))"
    by (simp add: script_keys_iff g has_flag_simps)
  have m: "js_getownproperty (NPROTDEF j t m q) a m = Some \<lparr>pvalue = JS_TOBJECT (length (heap j)), patts = 7\<rparr>"
    if "stack j \<noteq> []" and "last (stack j) = JS_TOBJECT a" and "a < length (heap j)"
    unfolding NPROTDEF_result [OF that, of t m q] flags_all using that(3) by (rule js_getownproperty_bound)
  have c: "js_getownproperty (CTORDEF j j' f tn r) (G j) tn
             = Some \<lparr>pvalue = JS_TOBJECT (length (heap j)), patts = 2\<rparr>"
    unfolding CTORDEF_result [OF assms, of j' f tn r] using assms
    by (simp add: js_getownproperty_def nth_append AList.update_conv' JS_DONTENUM_def)
  have mw: "script_assign (NPROTDEF j t m q) a m v = NPROTDEF j t m q"
    if "stack j \<noteq> []" and "last (stack j) = JS_TOBJECT a" and "a < length (heap j)"
    using m [OF that] by (rule script_assign_readonly) (rule has_flag_simps)
  have md: "script_delete (NPROTDEF j t m q) a m = NPROTDEF j t m q"
    if "stack j \<noteq> []" and "last (stack j) = JS_TOBJECT a" and "a < length (heap j)"
    using m [OF that] by (rule script_delete_dontconf) (rule has_flag_simps)
  have me: "m \<notin> set (script_keys (NPROTDEF j t m q) a)"
    if "stack j \<noteq> []" and "last (stack j) = JS_TOBJECT a" and "a < length (heap j)"
    by (simp add: script_keys_iff m [OF that] has_flag_simps)
  have ce: "tn \<notin> set (script_keys (CTORDEF j j' f tn r) (G j))"
    using has_flag_simps(8) by (simp add: script_keys_iff c JS_DONTENUM_def)
  from g f w d e m mw md me c ce show ?thesis
    by simp
qed

theorem NFUNCDEF_binds_unprotected_global_witness:
  "G J_example < length (heap J_example) \<and>
   js_getownproperty (NFUNCDEF J_example ''Print'' 1) 0 ''Print''
     = Some \<lparr>pvalue = JS_TOBJECT 3, patts = 0\<rparr> \<and>
   heap (NFUNCDEF J_example ''Print'' 1) ! 3
     = \<lparr>otype = JS_CCFUNCTION ''f_Print'' None ''Print'' 1, properties = []\<rparr> \<and>
   js_getownproperty (script_assign (NFUNCDEF J_example ''Print'' 1) 0 ''Print'' (JS_TNUMBER 0)) 0 ''Print''
     = Some \<lparr>pvalue = JS_TNUMBER 0, patts = 0\<rparr> \<and>
   js_getownproperty (script_delete (NFUNCDEF J_example ''Print'' 1) 0 ''Print'') 0 ''Print'' = None \<and>
   ''Print'' \<in> set (script_keys (NFUNCDEF J_example ''Print'' 1) 0) \<and>
   stack J_example \<noteq> [] \<and> last (stack J_example) = JS_TOBJECT 1 \<and> 1 < length (heap J_example) \<and>
   js_getownproperty (NPROTDEF J_example ''File'' ''Close'' 0) 1 ''Close''
     = Some \<lparr>pvalue = JS_TOBJECT 3, patts = 7\<rparr> \<and>
   js_getownproperty (CTORDEF J_example J_example ''new_File'' ''File'' 1) 0 ''File''
     = Some \<lparr>pvalue = JS_TOBJECT 3, patts = 2\<rparr>"
proof -
  have a: "G J_example < length (heap J_example)" by (simp add: J_example_def)
  have b: "stack J_example \<noteq> []" "last (stack J_example) = JS_TOBJECT 1" "1 < length (heap J_example)"
    by (simp_all add: J_example_def)
  have g: "G J_example = 0" by (simp add: J_example_def)
  have l: "length (heap J_example) = 3" by (simp add: J_example_def)
  from a b
    NFUNCDEF_binds_unprotected_global [where j = J_example and n = "''Print''" and p = 1
      and v = "JS_TNUMBER 0" and a = 1 and t = "''File''" and m = "''Close''" and q = 0
      and j' = J_example and f = "''new_File''" and tn = "''File''" and r = 1, OF a]
  show ?thesis
    by (simp add: g l)
qed

section \<open>Properties of the registry\<close>

lemma jsh_check_library_iff: "jsh_check_library reg n \<longleftrightarrow> n \<in> set (map name reg)"
  by (induction reg) auto

lemma register_keeps_distinct:
  "distinct (map name reg) \<Longrightarrow> distinct (map name (snd (jsh_register_library reg n h s)))"
  by (simp add: jsh_register_library_def jsh_check_library_iff)

lemma register_all_distinct:
  "distinct (map name reg) \<Longrightarrow> distinct (map name (register_all reg cs))"
proof (induction cs arbitrary: reg)
  case Nil
  then show ?case by simp
next
  case (Cons c cs)
  obtain n h s where c: "c = (n, h, s)" by (cases c) auto
  from Cons.prems have "distinct (map name (snd (jsh_register_library reg n h s)))"
    by (rule register_keeps_distinct)
  then show ?case unfolding c by (simp add: Cons.IH)
qed

lemma records_named_distinct:
  "distinct (map name reg) \<Longrightarrow> n \<in> set (map name reg) \<Longrightarrow> records_named reg n = 1"
proof (induction reg)
  case Nil
  then show ?case by simp
next
  case (Cons l reg)
  show ?case
  proof (cases "name l = n")
    case True
    with Cons.prems have "n \<notin> set (map name reg)" by auto
    then have "filter (\<lambda>l. name l = n) reg = []" by (auto simp: filter_empty_conv)
    with True show ?thesis by (simp add: records_named_def)
  next
    case False
    with Cons show ?thesis by (auto simp: records_named_def)
  qed
qed

lemma register_present_after:
  "jsh_check_library (snd (jsh_register_library reg n h s)) n"
  by (simp add: jsh_register_library_def jsh_check_library_iff)

text \<open>
  Claim C1. For every name \<open>n\<close> and every registry the register calls can build from
  the empty one: if a record named \<open>n\<close> is present, \<^verbatim>\<open>jsh_register_library\<close> returns false
  (it is a total function: nothing is raised), leaves the registry as it is, and the
  registry holds exactly one record named \<open>n\<close>; if none is present, the call appends the
  new record and returns true. So a second registration of the same name, right after
  the first, returns false.
\<close>

theorem jsh_register_library_contract:
  assumes "reg = register_all jsh_loaded_libraries_init cs"
  shows "(jsh_check_library reg n \<longrightarrow>
            jsh_register_library reg n h s = (False, reg) \<and>
            records_named (snd (jsh_register_library reg n h s)) n = 1) \<and>
         (\<not> jsh_check_library reg n \<longrightarrow>
            jsh_register_library reg n h s = (True, reg @ [\<lparr>name = n, handle = h, shutdown = s\<rparr>])) \<and>
         fst (jsh_register_library (snd (jsh_register_library reg n h s)) n h' s') = False \<and>
         records_named (snd (jsh_register_library (snd (jsh_register_library reg n h s)) n h' s')) n = 1"
proof -
  have d: "distinct (map name reg)"
    unfolding assms by (rule register_all_distinct) (simp add: jsh_loaded_libraries_init_def)
  have present: "jsh_check_library reg n \<Longrightarrow> records_named reg n = 1"
    using d by (simp add: jsh_check_library_iff records_named_distinct)
  let ?reg1 = "snd (jsh_register_library reg n h s)"
  have d1: "distinct (map name ?reg1)"
    using d by (rule register_keeps_distinct)
  have p1: "jsh_check_library ?reg1 n"
    by (rule register_present_after)
  have one: "records_named ?reg1 n = 1"
    using d1 p1 by (simp add: jsh_check_library_iff records_named_distinct)
  have second: "jsh_register_library ?reg1 n h' s' = (False, ?reg1)"
    using p1 by (simp add: jsh_register_library_def)
  show ?thesis
    using present one second by (simp add: jsh_register_library_def)
qed

theorem jsh_register_library_contract_witness:
  "jsh_check_library (register_all jsh_loaded_libraries_init [(''gfx'', 1, Some 7)]) ''gfx'' \<and>
   jsh_register_library (register_all jsh_loaded_libraries_init [(''gfx'', 1, Some 7)]) ''gfx'' 2 None
     = (False, [\<lparr>name = ''gfx'', handle = 1, shutdown = Some 7\<rparr>]) \<and>
   records_named (snd (jsh_register_library (register_all jsh_loaded_libraries_init [(''gfx'', 1, Some 7)]) ''gfx'' 2 None)) ''gfx'' = 1 \<and>
   \<not> jsh_check_library (register_all jsh_loaded_libraries_init [(''gfx'', 1, Some 7)]) ''net'' \<and>
   jsh_register_library (register_all jsh_loaded_libraries_init [(''gfx'', 1, Some 7)]) ''net'' 2 None
     = (True, [\<lparr>name = ''gfx'', handle = 1, shutdown = Some 7\<rparr>, \<lparr>name = ''net'', handle = 2, shutdown = None\<rparr>])"
proof -
  have r: "register_all jsh_loaded_libraries_init [(''gfx'', 1, Some 7)]
             = [\<lparr>name = ''gfx'', handle = 1, shutdown = Some 7\<rparr>]"
    by (simp add: jsh_loaded_libraries_init_def jsh_register_library_def)
  have a: "jsh_check_library (register_all jsh_loaded_libraries_init [(''gfx'', 1, Some 7)]) ''gfx''"
    unfolding r by simp
  have b: "\<not> jsh_check_library (register_all jsh_loaded_libraries_init [(''gfx'', 1, Some 7)]) ''net''"
    unfolding r by simp
  show ?thesis
    unfolding r
    using a b
      jsh_register_library_contract [OF r [symmetric], of "''gfx''" 2 None 2 None]
      jsh_register_library_contract [OF r [symmetric], of "''net''" 2 None 2 None]
    unfolding r
    by (simp add: records_named_def jsh_register_library_def)
qed

section \<open>Properties of teardown\<close>

lemma hook_calls_append: "hook_calls (xs @ ys) n = hook_calls xs n + hook_calls ys n"
  by (simp add: hook_calls_def)

lemma hook_calls_teardown_one:
  "hook_calls (teardown_one fails l) n = (if name l = n \<and> shutdown l \<noteq> None then 1 else 0)"
  by (cases "shutdown l") (auto simp: hook_calls_def teardown_one_def)

lemma hook_calls_absent:
  "n \<notin> set (map name reg) \<Longrightarrow> hook_calls (teardown_chain fails reg) n = 0"
proof (induction reg)
  case Nil
  show ?case by (simp add: hook_calls_def)
next
  case (Cons k reg)
  then show ?case by (auto simp: hook_calls_append hook_calls_teardown_one)
qed

lemma hook_calls_teardown_chain:
  "distinct (map name reg) \<Longrightarrow> l \<in> set reg \<Longrightarrow>
     hook_calls (teardown_chain fails reg) (name l) = (if shutdown l = None then 0 else 1)"
proof (induction reg)
  case Nil
  then show ?case by simp
next
  case (Cons k reg)
  show ?case
  proof (cases "l = k")
    case True
    with Cons.prems have "name l \<notin> set (map name reg)" by simp
    then have "hook_calls (teardown_chain fails reg) (name l) = 0"
      by (rule hook_calls_absent)
    with True show ?thesis
      by (simp add: hook_calls_append hook_calls_teardown_one)
  next
    case False
    with Cons.prems have l: "l \<in> set reg" and d: "distinct (map name reg)" by auto
    from l Cons.prems have "name k \<noteq> name l" by auto
    with Cons.IH [OF d l] show ?thesis
      by (simp add: hook_calls_append hook_calls_teardown_one)
  qed
qed

text \<open>
  Claim C6. For every sequence of register calls from the empty registry (the calls
  that succeed are the registrations) followed by two calls of \<^verbatim>\<open>teardownAll\<close>: the
  second call changes nothing, neither the registry nor the trace, and in the trace the
  hook of every registered record is called exactly once when the record has a hook (and
  never when it has none).
\<close>

theorem teardownAll_twice_calls_each_hook_once:
  assumes "reg = register_all jsh_loaded_libraries_init cs"
    and "st1 = teardownAll fails (reg, [])"
    and "st2 = teardownAll fails st1"
  shows "st2 = st1 \<and>
         (\<forall>l \<in> set reg. hook_calls (snd st1) (name l) = (if shutdown l = None then 0 else 1) \<and>
                         hook_calls (snd st2) (name l) = (if shutdown l = None then 0 else 1))"
proof -
  have d: "distinct (map name reg)"
    unfolding assms(1) by (rule register_all_distinct) (simp add: jsh_loaded_libraries_init_def)
  have s1: "st1 = ([], teardown_chain fails reg)"
    by (simp add: assms(2) teardownAll_def)
  have s2: "st2 = st1"
    by (simp add: assms(3) s1 teardownAll_def)
  show ?thesis
    using d by (simp add: s2 s1 hook_calls_teardown_chain)
qed

theorem teardownAll_twice_calls_each_hook_once_witness:
  "register_all jsh_loaded_libraries_init [(''gfx'', 1, Some 7), (''net'', 2, None), (''gfx'', 3, Some 8)]
     = [\<lparr>name = ''gfx'', handle = 1, shutdown = Some 7\<rparr>, \<lparr>name = ''net'', handle = 2, shutdown = None\<rparr>] \<and>
   teardownAll (\<lambda>f. False) (teardownAll (\<lambda>f. False)
       (register_all jsh_loaded_libraries_init [(''gfx'', 1, Some 7), (''net'', 2, None), (''gfx'', 3, Some 8)], []))
     = ([], [ShutdownInvoked ''gfx'' 7, HandleReleased 1, HandleReleased 2]) \<and>
   hook_calls (snd (teardownAll (\<lambda>f. False) (teardownAll (\<lambda>f. False)
       (register_all jsh_loaded_libraries_init [(''gfx'', 1, Some 7), (''net'', 2, None), (''gfx'', 3, Some 8)], [])))) ''gfx'' = 1 \<and>
   hook_calls (snd (teardownAll (\<lambda>f. False) (teardownAll (\<lambda>f. False)
       (register_all jsh_loaded_libraries_init [(''gfx'', 1, Some 7), (''net'', 2, None), (''gfx'', 3, Some 8)], [])))) ''net'' = 0"
proof -
  have r: "register_all jsh_loaded_libraries_init [(''gfx'', 1, Some 7), (''net'', 2, None), (''gfx'', 3, Some 8)]
             = [\<lparr>name = ''gfx'', handle = 1, shutdown = Some 7\<rparr>, \<lparr>name = ''net'', handle = 2, shutdown = None\<rparr>]"
    by (simp add: jsh_loaded_libraries_init_def jsh_register_library_def)
  have t: "teardownAll (\<lambda>f. False) (teardownAll (\<lambda>f. False)
             ([\<lparr>name = ''gfx'', handle = 1, shutdown = Some 7\<rparr>, \<lparr>name = ''net'', handle = 2, shutdown = None\<rparr>], []))
           = ([], [ShutdownInvoked ''gfx'' 7, HandleReleased 1, HandleReleased 2])"
    by (simp add: teardownAll_def teardown_one_def)
  show ?thesis
    unfolding r
    using teardownAll_twice_calls_each_hook_once [OF r [symmetric] refl refl, of "\<lambda>f. False"]
    unfolding t
    by (simp add: hook_calls_def)
qed

section \<open>Properties of the script execution driver\<close>

text \<open>
  Claim C7. For every path that does not exist on the filesystem, \<^verbatim>\<open>jsh_do_file\<close>
  returns \<open>FileNotFound\<close>, which is not \<open>CompileError\<close>; and the status tells the four
  outcomes apart: it is \<open>FileNotFound\<close> exactly when the file is missing, \<open>CompileError\<close>
  exactly when the file exists and does not compile, \<open>RuntimeError\<close> exactly when it
  compiles and its run fails, \<open>Success\<close> exactly when it compiles and runs.
\<close>

theorem jsh_do_file_status:
  "(\<not> jsh_file_exists fs p \<longrightarrow>
      jsh_do_file compile run fs p = FileNotFound \<and> jsh_do_file compile run fs p \<noteq> CompileError) \<and>
   (jsh_do_file compile run fs p = FileNotFound \<longleftrightarrow> \<not> jsh_file_exists fs p) \<and>
   (jsh_do_file compile run fs p = CompileError \<longleftrightarrow> (\<exists>src. fs p = Some src \<and> compile src = None)) \<and>
   (jsh_do_file compile run fs p = RuntimeError \<longleftrightarrow>
      (\<exists>src code. fs p = Some src \<and> compile src = Some code \<and> \<not> run code)) \<and>
   (jsh_do_file compile run fs p = Success \<longleftrightarrow>
      (\<exists>src code. fs p = Some src \<and> compile src = Some code \<and> run code))"
  by (auto simp: jsh_do_file_def jsh_file_exists_def split: option.splits)

theorem jsh_do_file_status_witness:
  "\<not> jsh_file_exists fs_boot ''missing.js'' \<and>
   jsh_do_file compile_any run_any fs_boot ''missing.js'' = FileNotFound \<and>
   jsh_do_file compile_any run_any fs_boot ''missing.js'' \<noteq> CompileError \<and>
   jsh_do_file compile_any run_any fs_boot ''JSBOOT/func.js'' = Success"
proof -
  have a: "\<not> jsh_file_exists fs_boot ''missing.js''"
    by (simp add: jsh_file_exists_def fs_boot_def)
  have b: "fs_boot ''JSBOOT/func.js'' = Some ''var x = 1;''"
    by (simp add: fs_boot_def)
  from a b jsh_do_file_status [of fs_boot "''missing.js''" compile_any run_any]
    jsh_do_file_status [of fs_boot "''JSBOOT/func.js''" compile_any run_any]
  show ?thesis by (simp add: compile_any_def run_any_def)
qed

end
